theory Spec2Isabelle
  imports Main "HOL-Library.Multiset" "HOL-Library.Option_ord"
begin

section \<open>The message relay of server.ts\<close>

text \<open>
  The embedding covers the part of \<^verbatim>\<open>server.ts\<close> that stores and relays chat messages:
  the \<^verbatim>\<open>messages\<close> table, the \<^verbatim>\<open>userSockets\<close> map, the three WebSocket handlers
  (\<^verbatim>\<open>connection\<close>, \<^verbatim>\<open>message\<close>, \<^verbatim>\<open>close\<close>) and the two routes that read the table
  (\<^verbatim>\<open>/api/messages/:userId/:otherId\<close> and \<^verbatim>\<open>/api/export/:userId\<close>). The remaining routes
  read and write only the \<^verbatim>\<open>users\<close> and \<^verbatim>\<open>contacts\<close> tables and are left out.

  Values. A property of a decoded frame is either absent (\<^verbatim>\<open>undefined\<close> in the source,
  \<open>None\<close> here) or present with the type that the client's \<^verbatim>\<open>Message\<close> interface gives it:
  a string, or an integer for \<^verbatim>\<open>timestamp\<close>. A column of a stored row holds such a value
  or \<^verbatim>\<open>NULL\<close> (\<open>None\<close> here).
\<close>

subsection \<open>Data\<close>

text \<open>A row of the table \<^verbatim>\<open>messages (id TEXT PRIMARY KEY, senderId, receiverId, content,
  timestamp INTEGER, status)\<close>. The column \<^verbatim>\<open>id\<close> is named \<open>id_m\<close>.\<close>

record message =
  id_m :: "string option"
  senderId :: "string option"
  receiverId :: "string option"
  content :: "string option"
  timestamp :: "int option"
  status :: string

text \<open>The object that \<^verbatim>\<open>JSON.parse\<close> returns for a frame, and the object that is
  serialised for a push: the properties the handler reads, each one possibly absent.\<close>

record payload =
  type_p :: "string option"
  userId_p :: "string option"
  id_p :: "string option"
  senderId_p :: "string option"
  receiverId_p :: "string option"
  content_p :: "string option"
  timestamp_p :: "int option"

text \<open>The text of an inbound frame, by what \<^verbatim>\<open>JSON.parse\<close> makes of it: a syntax error,
  the value \<^verbatim>\<open>null\<close> (reading a property of it throws), or a value whose properties can be
  read.\<close>

datatype data = NotJson | JsonNull | JsonObject payload

text \<open>A WebSocket object is identified by a number; \<^verbatim>\<open>readyState\<close> is the state the
  \<^verbatim>\<open>ws\<close> library keeps for it.\<close>

type_synonym handle = nat

datatype ready_state = CONNECTING | OPEN | CLOSING | CLOSED

text \<open>The exceptions that reach the \<^verbatim>\<open>catch\<close> of the message handler, which logs them with
  \<^verbatim>\<open>console.error\<close>: \<open>SyntaxError\<close> from \<^verbatim>\<open>JSON.parse\<close>, \<open>TypeError\<close> from reading a
  property of \<^verbatim>\<open>null\<close>, and
  \<open>SqliteError\<close> for a violated \<^verbatim>\<open>PRIMARY KEY\<close> constraint.\<close>

datatype ws_error = SyntaxError | TypeError | SqliteError

text \<open>The state of the server: the table, the map \<^verbatim>\<open>userSockets\<close> (its keys include
  \<^verbatim>\<open>undefined\<close>, which \<^verbatim>\<open>userSockets.set(currentUserId!, ws)\<close> stores when the auth frame
  has no \<^verbatim>\<open>userId\<close>), the variable \<^verbatim>\<open>currentUserId\<close> of each connection's closure, the
  ready state of each socket, and the frames handed to \<^verbatim>\<open>send\<close>, oldest first.\<close>

record server =
  messages :: "message list"
  userSockets :: "string option \<Rightarrow> handle option"
  currentUserId :: "handle \<Rightarrow> string option"
  readyState :: "handle \<Rightarrow> ready_state"
  outbox :: "(handle \<times> payload) list"

definition init :: server where
  "init = \<lparr>messages = [], userSockets = (\<lambda>_. None), currentUserId = (\<lambda>_. None),
           readyState = (\<lambda>_. CONNECTING), outbox = []\<rparr>"

subsection \<open>The table\<close>

text \<open>\<^verbatim>\<open>db.prepare("INSERT INTO messages ...").run(id, senderId, receiverId, content,
  timestamp, 'sent')\<close>. The handler passes the destructured values on unchecked; an absent
  one is bound as \<^verbatim>\<open>NULL\<close>. The statement fails when the id is not \<^verbatim>\<open>NULL\<close> and is already
  in the table (a \<^verbatim>\<open>TEXT PRIMARY KEY\<close> column admits any number of \<^verbatim>\<open>NULL\<close>s); otherwise the
  row is appended.\<close>

definition run_insert ::
  "string option \<Rightarrow> string option \<Rightarrow> string option \<Rightarrow> string option \<Rightarrow> int option \<Rightarrow> string
     \<Rightarrow> message list \<Rightarrow> ws_error + message list" where
  "run_insert i s r c t st rows =
     (if i \<noteq> None \<and> i \<in> set (map id_m rows) then Inl SqliteError
      else Inr (rows @ [\<lparr>id_m = i, senderId = s, receiverId = r, content = c,
                         timestamp = t, status = st\<rparr>]))"

text \<open>\<^verbatim>\<open>SELECT * FROM messages WHERE (senderId = ? AND receiverId = ?) OR (senderId = ? AND
  receiverId = ?) ORDER BY timestamp ASC\<close> with the parameters
  \<^verbatim>\<open>(userId, otherId, otherId, userId)\<close>; \<open>where_clause\<close> is the condition with its four
  parameters. A comparison with a \<^verbatim>\<open>NULL\<close> column is not true, so such a row is not
  selected. The table is scanned in row order, which is the order of insertion; the sort
  puts \<^verbatim>\<open>NULL\<close> timestamps first (\<open>None\<close> is the least element of the order on
  \<open>int option\<close>) and keeps rows of equal timestamp in scan order.\<close>

definition where_clause :: "string \<Rightarrow> string \<Rightarrow> string \<Rightarrow> string \<Rightarrow> message \<Rightarrow> bool" where
  "where_clause p1 p2 p3 p4 m \<longleftrightarrow>
     (senderId m = Some p1 \<and> receiverId m = Some p2)
     \<or> (senderId m = Some p3 \<and> receiverId m = Some p4)"

definition get_messages :: "string \<Rightarrow> string \<Rightarrow> message list \<Rightarrow> message list" where
  "get_messages userId otherId rows =
     sort_key timestamp (filter (where_clause userId otherId otherId userId) rows)"

text \<open>\<^verbatim>\<open>SELECT * FROM messages WHERE senderId = ? OR receiverId = ?\<close>.\<close>

definition get_export :: "string \<Rightarrow> message list \<Rightarrow> message list" where
  "get_export userId rows = filter (\<lambda>m. senderId m = Some userId \<or> receiverId m = Some userId) rows"

subsection \<open>The WebSocket handlers\<close>

text \<open>\<^verbatim>\<open>wss.on("connection", (ws) => { let currentUserId = null; ... })\<close>.\<close>

definition on_connection :: "handle \<Rightarrow> server \<Rightarrow> server" where
  "on_connection ws s = s\<lparr>currentUserId := (currentUserId s)(ws := None)\<rparr>"

text \<open>The frame \<^verbatim>\<open>{ type: 'message', senderId, receiverId, content, id, timestamp }\<close> that is
  serialised for the receiver; \<^verbatim>\<open>JSON.stringify\<close> leaves out a property whose value is
  \<^verbatim>\<open>undefined\<close>.\<close>

definition push_frame :: "payload \<Rightarrow> payload" where
  "push_frame p = \<lparr>type_p = Some ''message'', userId_p = None, id_p = id_p p,
                   senderId_p = senderId_p p, receiverId_p = receiverId_p p,
                   content_p = content_p p, timestamp_p = timestamp_p p\<rparr>"

text \<open>\<^verbatim>\<open>ws.on("message", (data) => { try { ... } catch (e) { console.error(...) } })\<close>.
  The result is the exception that was caught and logged, if any, and the new state.\<close>

definition on_message :: "handle \<Rightarrow> data \<Rightarrow> server \<Rightarrow> ws_error option \<times> server" where
  "on_message ws d s =
     (case d of
        NotJson \<Rightarrow> (Some SyntaxError, s)
      | JsonNull \<Rightarrow> (Some TypeError, s)
      | JsonObject p \<Rightarrow>
          let s1 = (if type_p p = Some ''auth''
                    then s\<lparr>currentUserId := (currentUserId s)(ws := userId_p p),
                           userSockets := (userSockets s)(userId_p p \<mapsto> ws)\<rparr>
                    else s)
          in if type_p p = Some ''message''
             then (case run_insert (id_p p) (senderId_p p) (receiverId_p p) (content_p p)
                          (timestamp_p p) ''sent'' (messages s1) of
                     Inl e \<Rightarrow> (Some e, s1)
                   | Inr rows \<Rightarrow>
                       let s2 = s1\<lparr>messages := rows\<rparr>
                       in (case userSockets s2 (receiverId_p p) of
                             None \<Rightarrow> (None, s2)
                           | Some receiverSocket \<Rightarrow>
                               if readyState s2 receiverSocket = OPEN
                               then (None, s2\<lparr>outbox := outbox s2 @
                                                 [(receiverSocket, push_frame p)]\<rparr>)
                               else (None, s2)))
             else (None, s1))"

text \<open>\<^verbatim>\<open>ws.on("close", () => { if (currentUserId) userSockets.delete(currentUserId); })\<close>:
  \<^verbatim>\<open>null\<close>, \<^verbatim>\<open>undefined\<close> and the empty string are falsy.\<close>

definition on_close :: "handle \<Rightarrow> server \<Rightarrow> server" where
  "on_close ws s =
     (case currentUserId s ws of
        None \<Rightarrow> s
      | Some u \<Rightarrow> if u = [] then s else s\<lparr>userSockets := (userSockets s)(Some u := None)\<rparr>)"

subsection \<open>Events\<close>

text \<open>What happens to the server: a socket is accepted (the library hands it over open), a
  frame arrives, a socket closes (the library marks it closed and emits \<^verbatim>\<open>close\<close>), the
  library moves a socket to another ready state, or one of the two read-only routes is
  called.\<close>

datatype event =
    Connection handle
  | Message handle data
  | Close handle
  | Transport handle ready_state
  | GetMessages string string
  | GetExport string

fun step :: "server \<Rightarrow> event \<Rightarrow> server" where
  "step s (Connection ws) = on_connection ws (s\<lparr>readyState := (readyState s)(ws := OPEN)\<rparr>)"
| "step s (Message ws d) = snd (on_message ws d s)"
| "step s (Close ws) = on_close ws (s\<lparr>readyState := (readyState s)(ws := CLOSED)\<rparr>)"
| "step s (Transport ws r) = s\<lparr>readyState := (readyState s)(ws := r)\<rparr>"
| "step s (GetMessages userId otherId) = s"
| "step s (GetExport userId) = s"

definition run :: "server \<Rightarrow> event list \<Rightarrow> server" where
  "run s es = foldl step s es"

text \<open>Frames used in the examples.\<close>

definition auth :: "string \<Rightarrow> payload" where
  "auth u = \<lparr>type_p = Some ''auth'', userId_p = Some u, id_p = None, senderId_p = None,
             receiverId_p = None, content_p = None, timestamp_p = None\<rparr>"

definition send :: "string \<Rightarrow> string \<Rightarrow> string \<Rightarrow> string \<Rightarrow> int \<Rightarrow> payload" where
  "send i s r c t = \<lparr>type_p = Some ''message'', userId_p = None, id_p = Some i,
                     senderId_p = Some s, receiverId_p = Some r, content_p = Some c,
                     timestamp_p = Some t\<rparr>"

text \<open>The server after \<open>a1\<close> has authenticated on socket 1 and \<open>b1\<close> on socket 2, and the
  same server after \<open>a1\<close> has sent \<open>m1\<close> to \<open>b1\<close>.\<close>

definition online :: server where
  "online = run init [Connection 1, Message 1 (JsonObject (auth ''a1'')),
                      Connection 2, Message 2 (JsonObject (auth ''b1''))]"

definition online_m1 :: server where
  "online_m1 = step online (Message 1 (JsonObject (send ''m1'' ''a1'' ''b1'' ''hi'' 1000)))"

section \<open>Auxiliary facts\<close>

lemma run_insert_fresh:
  assumes "i = None \<or> i \<notin> set (map id_m rows)"
  shows "run_insert i a b c t st rows =
           Inr (rows @ [\<lparr>id_m = i, senderId = a, receiverId = b, content = c,
                          timestamp = t, status = st\<rparr>])"
  using assms by (auto simp: run_insert_def)

lemma run_insert_duplicate:
  assumes "Some i \<in> set (map id_m rows)"
  shows "run_insert (Some i) a b c t st rows = Inl SqliteError"
  using assms by (simp add: run_insert_def)

lemma run_insert_Inr:
  assumes "run_insert i a b c t st rows = Inr rows'"
  shows "\<exists>m. rows' = rows @ [m] \<and> status m = st
             \<and> (id_m m = None \<or> id_m m \<notin> set (map id_m rows))"
  using assms by (auto simp: run_insert_def split: if_splits)

lemma on_message_insert_fails:
  assumes "type_p p = Some ''message''"
    and "run_insert (id_p p) (senderId_p p) (receiverId_p p) (content_p p) (timestamp_p p)
           ''sent'' (messages s) = Inl e"
  shows "on_message ws (JsonObject p) s = (Some e, s)"
  using assms by (simp add: on_message_def)

lemma on_message_insert_succeeds:
  assumes "type_p p = Some ''message''"
    and "run_insert (id_p p) (senderId_p p) (receiverId_p p) (content_p p) (timestamp_p p)
           ''sent'' (messages s) = Inr rows"
  shows "on_message ws (JsonObject p) s =
           (None, (case userSockets s (receiverId_p p) of
                     None \<Rightarrow> s\<lparr>messages := rows\<rparr>
                   | Some receiverSocket \<Rightarrow>
                       if readyState s receiverSocket = OPEN
                       then s\<lparr>messages := rows,
                              outbox := outbox s @ [(receiverSocket, push_frame p)]\<rparr>
                       else s\<lparr>messages := rows\<rparr>))"
  using assms by (simp add: on_message_def Let_def split: option.splits)

lemma on_message_other_type:
  assumes "type_p p \<noteq> Some ''auth''" and "type_p p \<noteq> Some ''message''"
  shows "on_message ws (JsonObject p) s = (None, s)"
  using assms by (simp add: on_message_def)

lemma on_message_auth:
  assumes "type_p p = Some ''auth''"
  shows "on_message ws (JsonObject p) s =
           (None, s\<lparr>currentUserId := (currentUserId s)(ws := userId_p p),
                    userSockets := (userSockets s)(userId_p p \<mapsto> ws)\<rparr>)"
  using assms by (simp add: on_message_def)

lemma on_message_messages:
  "\<exists>new. messages (snd (on_message ws d s)) = messages s @ new
         \<and> (\<forall>m \<in> set new. status m = ''sent'')"
proof (cases d)
  case NotJson
  then show ?thesis by (simp add: on_message_def)
next
  case JsonNull
  then show ?thesis by (simp add: on_message_def)
next
  case (JsonObject p)
  show ?thesis
  proof (cases "type_p p = Some ''message''")
    case False
    then show ?thesis
      using JsonObject by (simp add: on_message_def)
  next
    case True
    show ?thesis
    proof (cases "run_insert (id_p p) (senderId_p p) (receiverId_p p) (content_p p)
                    (timestamp_p p) ''sent'' (messages s)")
      case (Inl e)
      then show ?thesis
        using JsonObject True by (simp add: on_message_insert_fails)
    next
      case (Inr rows)
      from run_insert_Inr [OF Inr] obtain m
        where "rows = messages s @ [m]" and "status m = ''sent''"
        by blast
      then show ?thesis
        using JsonObject True Inr
        by (simp add: on_message_insert_succeeds split: option.splits)
    qed
  qed
qed

lemma step_messages:
  "\<exists>new. messages (step s e) = messages s @ new \<and> (\<forall>m \<in> set new. status m = ''sent'')"
proof (cases e)
  case (Message ws d)
  then show ?thesis
    using on_message_messages [of ws d s] by simp
next
  case (Close ws)
  then show ?thesis
    by (simp add: on_close_def split: option.splits)
qed (simp_all add: on_connection_def)

lemma run_messages:
  "\<exists>new. messages (run s es) = messages s @ new \<and> (\<forall>m \<in> set new. status m = ''sent'')"
proof (induction es arbitrary: s)
  case Nil
  then show ?case by (simp add: run_def)
next
  case (Cons e es)
  from step_messages [of s e] obtain new1
    where 1: "messages (step s e) = messages s @ new1" "\<forall>m \<in> set new1. status m = ''sent''"
    by blast
  from Cons.IH [of "step s e"] obtain new2
    where 2: "messages (run (step s e) es) = messages (step s e) @ new2"
      "\<forall>m \<in> set new2. status m = ''sent''"
    by blast
  have "messages (run s (e # es)) = messages s @ (new1 @ new2)"
    using 1 2 by (simp add: run_def)
  moreover have "\<forall>m \<in> set (new1 @ new2). status m = ''sent''"
    using 1 2 by auto
  ultimately show ?case by blast
qed

lemma count_unique_key:
  assumes "distinct (filter (\<lambda>k. k \<noteq> None) (map f xs))" and "Some k \<in> set (map f xs)"
  shows "length (filter (\<lambda>x. f x = Some k) xs) = 1"
  using assms
proof (induction xs)
  case Nil
  then show ?case by simp
next
  case (Cons x xs)
  show ?case
  proof (cases "f x = Some k")
    case True
    with Cons.prems have "Some k \<notin> f ` set xs" by auto
    then have "filter (\<lambda>x. f x = Some k) xs = []"
      unfolding filter_empty_conv by (metis imageI)
    with True show ?thesis by simp
  next
    case False
    with Cons.prems have "distinct (filter (\<lambda>k. k \<noteq> None) (map f xs))"
      and "Some k \<in> set (map f xs)"
      by (auto split: if_splits)
    with Cons.IH False show ?thesis by simp
  qed
qed

lemma step_distinct_ids:
  assumes "distinct (filter (\<lambda>k. k \<noteq> None) (map id_m (messages s)))"
  shows "distinct (filter (\<lambda>k. k \<noteq> None) (map id_m (messages (step s e))))"
proof (cases e)
  case (Message ws d)
  show ?thesis
  proof (cases d)
    case (JsonObject p)
    show ?thesis
    proof (cases "type_p p = Some ''message''")
      case False
      then show ?thesis
        using assms Message JsonObject by (simp add: on_message_def)
    next
      case True
      show ?thesis
      proof (cases "run_insert (id_p p) (senderId_p p) (receiverId_p p) (content_p p)
                      (timestamp_p p) ''sent'' (messages s)")
        case (Inl e)
        then show ?thesis
          using assms Message JsonObject True by (simp add: on_message_insert_fails)
      next
        case (Inr rows)
        from run_insert_Inr [OF Inr] obtain m
          where "rows = messages s @ [m]"
            and "id_m m = None \<or> id_m m \<notin> set (map id_m (messages s))"
          by blast
        then show ?thesis
          using assms Message JsonObject True Inr
          by (auto simp: on_message_insert_succeeds split: option.splits)
      qed
    qed
  qed (use assms Message in \<open>simp_all add: on_message_def\<close>)
next
  case (Close ws)
  then show ?thesis
    using assms by (simp add: on_close_def split: option.splits)
qed (use assms in \<open>simp_all add: on_connection_def\<close>)

lemma online_fields:
  "messages online = []"
  "outbox online = []"
  "userSockets online (Some ''a1'') = Some 1"
  "userSockets online (Some ''b1'') = Some 2"
  "readyState online 2 = OPEN"
  "currentUserId online 1 = Some ''a1''"
  by (simp_all add: online_def run_def init_def on_connection_def on_message_def auth_def)

lemma online_m1_fields:
  "messages online_m1 = [\<lparr>id_m = Some ''m1'', senderId = Some ''a1'',
                           receiverId = Some ''b1'', content = Some ''hi'',
                           timestamp = Some 1000, status = ''sent''\<rparr>]"
  "outbox online_m1 = [(2, send ''m1'' ''a1'' ''b1'' ''hi'' 1000)]"
  "userSockets online_m1 (Some ''b1'') = Some 2"
  "readyState online_m1 2 = OPEN"
  by (simp_all add: online_m1_def on_message_def run_insert_def send_def push_frame_def
        online_fields)

lemma duplicate_send_unchanged:
  assumes "type_p p = Some ''message''" and "id_p p = Some i"
    and "Some i \<in> set (map id_m (messages s))"
  shows "on_message ws (JsonObject p) s = (Some SqliteError, s)"
proof -
  have "run_insert (id_p p) (senderId_p p) (receiverId_p p) (content_p p)
          (timestamp_p p) ''sent'' (messages s) = Inl SqliteError"
    unfolding assms(2) by (rule run_insert_duplicate [OF assms(3)])
  from on_message_insert_fails [OF assms(1) this] show ?thesis .
qed

section \<open>Properties\<close>

subsection \<open>History query\<close>

text \<open>
  C8. For every pair of user ids and every table, the history query for \<open>(a, b)\<close> returns
  the same list, in the same order, as the history query for \<open>(b, a)\<close>.
\<close>

theorem get_messages_symmetric: "get_messages a b rows = get_messages b a rows"
proof -
  have "where_clause a b b a = where_clause b a a b"
    by (rule ext) (auto simp: where_clause_def)
  then show ?thesis
    by (simp add: get_messages_def)
qed

text \<open>
  C3. For every pair of users and every table, whatever the order in which its rows were
  inserted, the history query returns the rows between the two users (each of them once)
  in non-decreasing timestamp order, and rows of equal timestamp in their insertion order.
\<close>

theorem get_messages_ordered:
  "sorted (map timestamp (get_messages a b rows))
   \<and> mset (get_messages a b rows) = mset (filter (where_clause a b b a) rows)
   \<and> filter (\<lambda>m. timestamp m = t) (get_messages a b rows)
       = filter (\<lambda>m. timestamp m = t) (filter (where_clause a b b a) rows)"
proof -
  let ?conv = "filter (where_clause a b b a) rows"
  have "sorted (map timestamp (sort_key timestamp ?conv))"
    by (rule sorted_sort_key)
  moreover have "mset (sort_key timestamp ?conv) = mset ?conv"
    by (rule mset_sort)
  moreover have "filter (\<lambda>m. timestamp m = t) (sort_key timestamp ?conv)
               = filter (\<lambda>m. timestamp m = t) ?conv"
    by (rule sort_key_stable)
  ultimately show ?thesis
    by (simp only: get_messages_def)
qed

theorem get_messages_ordered_witness:
  "get_messages ''a1'' ''b1''
     [\<lparr>id_m = Some ''m3'', senderId = Some ''a1'', receiverId = Some ''b1'',
        content = Some ''c'', timestamp = Some 2000, status = ''sent''\<rparr>,
      \<lparr>id_m = Some ''m1'', senderId = Some ''b1'', receiverId = Some ''a1'',
        content = Some ''a'', timestamp = Some 1000, status = ''sent''\<rparr>,
      \<lparr>id_m = Some ''m9'', senderId = Some ''a1'', receiverId = Some ''c1'',
        content = Some ''x'', timestamp = Some 500, status = ''sent''\<rparr>,
      \<lparr>id_m = Some ''m2'', senderId = Some ''a1'', receiverId = Some ''b1'',
        content = Some ''b'', timestamp = Some 1000, status = ''sent''\<rparr>]
   = [\<lparr>id_m = Some ''m1'', senderId = Some ''b1'', receiverId = Some ''a1'',
        content = Some ''a'', timestamp = Some 1000, status = ''sent''\<rparr>,
      \<lparr>id_m = Some ''m2'', senderId = Some ''a1'', receiverId = Some ''b1'',
        content = Some ''b'', timestamp = Some 1000, status = ''sent''\<rparr>,
      \<lparr>id_m = Some ''m3'', senderId = Some ''a1'', receiverId = Some ''b1'',
        content = Some ''c'', timestamp = Some 2000, status = ''sent''\<rparr>]"
  using get_messages_ordered [of "''a1''" "''b1''" "[]" None]
  by (simp add: get_messages_def where_clause_def)

subsection \<open>Identity registry\<close>

text \<open>
  C1 (as the code has it). For every non-empty user id \<open>u\<close> and handles \<open>h1\<close>, \<open>h2\<close>, after
  an auth frame for \<open>u\<close> on \<open>h1\<close> and then one on \<open>h2\<close>, the lookup of \<open>u\<close> returns \<open>h2\<close>.
  The close handler of \<open>h1\<close> deletes the entry of \<open>u\<close> without comparing the stored handle
  with its own, so afterwards the lookup of \<open>u\<close> returns nothing.
\<close>

theorem close_deletes_entry_of_other_socket:
  assumes "u \<noteq> []"
    and "type_p p1 = Some ''auth''" and "userId_p p1 = Some u"
    and "type_p p2 = Some ''auth''" and "userId_p p2 = Some u"
  shows "userSockets (snd (on_message h2 (JsonObject p2)
                        (snd (on_message h1 (JsonObject p1) s)))) (Some u) = Some h2
       \<and> userSockets (on_close h1 (snd (on_message h2 (JsonObject p2)
                        (snd (on_message h1 (JsonObject p1) s))))) (Some u) = None"
proof -
  let ?s1 = "snd (on_message h1 (JsonObject p1) s)"
  let ?s2 = "snd (on_message h2 (JsonObject p2) ?s1)"
  have cur: "currentUserId ?s2 h1 = Some u"
    using assms by (simp add: on_message_auth)
  have reg: "userSockets ?s2 (Some u) = Some h2"
    using assms by (simp add: on_message_auth)
  have "userSockets (on_close h1 ?s2) (Some u) = None"
    using cur \<open>u \<noteq> []\<close> by (simp add: on_close_def)
  with reg show ?thesis by simp
qed

theorem close_deletes_entry_of_other_socket_witness:
  "''a1'' \<noteq> [] \<and> type_p (auth ''a1'') = Some ''auth'' \<and> userId_p (auth ''a1'') = Some ''a1''
   \<and> userSockets (snd (on_message 2 (JsonObject (auth ''a1''))
                   (snd (on_message 1 (JsonObject (auth ''a1'')) init)))) (Some ''a1'') = Some 2
   \<and> userSockets (on_close 1 (snd (on_message 2 (JsonObject (auth ''a1''))
                   (snd (on_message 1 (JsonObject (auth ''a1'')) init))))) (Some ''a1'') = None"
proof -
  have h: "''a1'' \<noteq> []" "type_p (auth ''a1'') = Some ''auth''"
    "userId_p (auth ''a1'') = Some ''a1''"
    by (simp_all add: auth_def)
  show ?thesis
    using h close_deletes_entry_of_other_socket
            [OF h(1) h(2) h(3) h(2) h(3), of 2 1 init]
    by simp
qed

text \<open>C1 as stated fails: with \<open>h1 = 1\<close> and \<open>h2 = 2\<close>, closing socket 1 is not a no-op, and
  the lookup no longer returns socket 2.\<close>

theorem guarded_unregister_counterexample:
  "userSockets (on_close 1 (snd (on_message 2 (JsonObject (auth ''a1''))
                 (snd (on_message 1 (JsonObject (auth ''a1'')) init))))) (Some ''a1'')
     \<noteq> Some 2"
  by (simp add: on_close_def on_message_def auth_def init_def)

subsection \<open>Sending\<close>

text \<open>
  C10. A message frame with all five properties and a fresh id is stored and forwarded with
  the \<open>senderId\<close>, \<open>receiverId\<close>, \<open>content\<close>, \<open>id\<close> and \<open>timestamp\<close> of the frame as they
  are. The user id under which the sending socket authenticated is not consulted: the
  result is the same for every value \<open>cu\<close> of the connections' \<open>currentUserId\<close>, also one
  that differs from the frame's \<open>senderId\<close>.
\<close>

theorem sender_not_checked:
  assumes "type_p p = Some ''message''"
    and "id_p p = Some i" and "senderId_p p = Some a" and "receiverId_p p = Some b"
    and "content_p p = Some c" and "timestamp_p p = Some t"
    and "Some i \<notin> set (map id_m (messages s))"
  shows "fst (on_message ws (JsonObject p) (s\<lparr>currentUserId := cu\<rparr>)) = None
       \<and> messages (snd (on_message ws (JsonObject p) (s\<lparr>currentUserId := cu\<rparr>)))
           = messages s @ [\<lparr>id_m = Some i, senderId = Some a, receiverId = Some b,
                            content = Some c, timestamp = Some t, status = ''sent''\<rparr>]
       \<and> outbox (snd (on_message ws (JsonObject p) (s\<lparr>currentUserId := cu\<rparr>)))
           = outbox s @
             (case userSockets s (Some b) of
                None \<Rightarrow> []
              | Some h \<Rightarrow>
                  if readyState s h = OPEN
                  then [(h, \<lparr>type_p = Some ''message'', userId_p = None, id_p = Some i,
                             senderId_p = Some a, receiverId_p = Some b, content_p = Some c,
                             timestamp_p = Some t\<rparr>)]
                  else [])"
proof -
  let ?s = "s\<lparr>currentUserId := cu\<rparr>"
  let ?row = "\<lparr>id_m = Some i, senderId = Some a, receiverId = Some b, content = Some c,
               timestamp = Some t, status = ''sent''\<rparr>"
  have ins: "run_insert (id_p p) (senderId_p p) (receiverId_p p) (content_p p) (timestamp_p p)
               ''sent'' (messages ?s) = Inr (messages s @ [?row])"
    using assms by (simp add: run_insert_fresh)
  have frame: "push_frame p = \<lparr>type_p = Some ''message'', userId_p = None, id_p = Some i,
                 senderId_p = Some a, receiverId_p = Some b, content_p = Some c,
                 timestamp_p = Some t\<rparr>"
    using assms by (simp add: push_frame_def)
  show ?thesis
    unfolding on_message_insert_succeeds [OF assms(1) ins] frame
    using assms(4) by (simp split: option.splits)
qed

theorem sender_not_checked_witness:
  "type_p (send ''m2'' ''zz'' ''b1'' ''hi'' 2000) = Some ''message''
   \<and> Some ''m2'' \<notin> set (map id_m (messages online_m1))
   \<and> currentUserId online 1 = Some ''a1''
   \<and> messages (snd (on_message 1 (JsonObject (send ''m2'' ''zz'' ''b1'' ''hi'' 2000))
                 (online_m1\<lparr>currentUserId := currentUserId online\<rparr>)))
       = messages online_m1 @ [\<lparr>id_m = Some ''m2'', senderId = Some ''zz'',
                                 receiverId = Some ''b1'', content = Some ''hi'',
                                 timestamp = Some 2000, status = ''sent''\<rparr>]
   \<and> outbox (snd (on_message 1 (JsonObject (send ''m2'' ''zz'' ''b1'' ''hi'' 2000))
                 (online_m1\<lparr>currentUserId := currentUserId online\<rparr>)))
       = outbox online_m1 @ [(2, send ''m2'' ''zz'' ''b1'' ''hi'' 2000)]"
proof -
  let ?p = "send ''m2'' ''zz'' ''b1'' ''hi'' 2000"
  have h: "type_p ?p = Some ''message''" "id_p ?p = Some ''m2''" "senderId_p ?p = Some ''zz''"
    "receiverId_p ?p = Some ''b1''" "content_p ?p = Some ''hi''" "timestamp_p ?p = Some 2000"
    "Some ''m2'' \<notin> set (map id_m (messages online_m1))"
    by (simp_all add: send_def online_m1_fields)
  show ?thesis
    using h online_fields(6) sender_not_checked [OF h, of 1 "currentUserId online"]
    by (simp add: online_m1_fields send_def)
qed

text \<open>
  C4 (as the code has it). When the lookup of the receiver returns nothing at send time, a
  message frame with all five properties whose id is not yet in the table is stored all the
  same: no exception is raised, nothing is handed to \<open>send\<close>, and the history query of the
  two users, in either order, returns the message with status \<open>sent\<close>.
\<close>

theorem offline_receiver_message_kept:
  assumes "type_p p = Some ''message''"
    and "id_p p = Some i" and "senderId_p p = Some a" and "receiverId_p p = Some b"
    and "content_p p = Some c" and "timestamp_p p = Some t"
    and "Some i \<notin> set (map id_m (messages s))"
    and "userSockets s (Some b) = None"
  shows "fst (on_message ws (JsonObject p) s) = None
       \<and> outbox (snd (on_message ws (JsonObject p) s)) = outbox s
       \<and> \<lparr>id_m = Some i, senderId = Some a, receiverId = Some b, content = Some c,
           timestamp = Some t, status = ''sent''\<rparr>
           \<in> set (get_messages a b (messages (snd (on_message ws (JsonObject p) s))))
             \<inter> set (get_messages b a (messages (snd (on_message ws (JsonObject p) s))))"
proof -
  let ?row = "\<lparr>id_m = Some i, senderId = Some a, receiverId = Some b, content = Some c,
               timestamp = Some t, status = ''sent''\<rparr>"
  have ins: "run_insert (id_p p) (senderId_p p) (receiverId_p p) (content_p p) (timestamp_p p)
               ''sent'' (messages s) = Inr (messages s @ [?row])"
    using assms by (simp add: run_insert_fresh)
  have res: "on_message ws (JsonObject p) s = (None, s\<lparr>messages := messages s @ [?row]\<rparr>)"
    unfolding on_message_insert_succeeds [OF assms(1) ins]
    using assms(4,8) by simp
  have "where_clause a b b a ?row" and "where_clause b a a b ?row"
    by (simp_all add: where_clause_def)
  then show ?thesis
    by (simp add: res get_messages_def)
qed

theorem offline_receiver_message_kept_witness:
  "userSockets (step init (Connection 1)) (Some ''b1'') = None
   \<and> outbox (snd (on_message 1 (JsonObject (send ''m1'' ''a1'' ''b1'' ''hi'' 1000))
                (step init (Connection 1)))) = []
   \<and> get_messages ''a1'' ''b1''
       (messages (snd (on_message 1 (JsonObject (send ''m1'' ''a1'' ''b1'' ''hi'' 1000))
                   (step init (Connection 1)))))
       = [\<lparr>id_m = Some ''m1'', senderId = Some ''a1'', receiverId = Some ''b1'',
           content = Some ''hi'', timestamp = Some 1000, status = ''sent''\<rparr>]"
proof -
  let ?p = "send ''m1'' ''a1'' ''b1'' ''hi'' 1000"
  let ?s = "step init (Connection 1)"
  have h: "type_p ?p = Some ''message''" "id_p ?p = Some ''m1''" "senderId_p ?p = Some ''a1''"
    "receiverId_p ?p = Some ''b1''" "content_p ?p = Some ''hi''" "timestamp_p ?p = Some 1000"
    "Some ''m1'' \<notin> set (map id_m (messages ?s))" "userSockets ?s (Some ''b1'') = None"
    by (simp_all add: send_def init_def on_connection_def)
  show ?thesis
    using h(8) offline_receiver_message_kept [OF h, of 1]
    by (simp add: send_def init_def on_connection_def on_message_def run_insert_def
          get_messages_def where_clause_def)
qed

text \<open>C4 as stated fails: \<open>d1\<close> has no registry entry and the id \<open>m1\<close> is already in the
  table; the frame from \<open>c1\<close> to \<open>d1\<close> with that id is not stored, and the history query
  of \<open>c1\<close> and \<open>d1\<close> returns nothing.\<close>

theorem offline_receiver_counterexample:
  "userSockets online_m1 (Some ''d1'') = None
   \<and> get_messages ''c1'' ''d1''
       (messages (snd (on_message 1 (JsonObject (send ''m1'' ''c1'' ''d1'' ''yo'' 5000))
                        online_m1))) = []"
  by (simp add: online_m1_def online_def run_def init_def on_connection_def on_message_def
        run_insert_def send_def auth_def get_messages_def where_clause_def)

text \<open>
  C9. A message frame whose id is already in the table changes nothing, also when the
  receiver is registered with an open socket: the insert raises, the handler's \<open>catch\<close>
  logs the exception, and neither the lookup nor the push is reached. The table, the
  registry and the frames sent are what they were.
\<close>

theorem duplicate_send_no_push:
  assumes "type_p p = Some ''message''"
    and "id_p p = Some i"
    and "Some i \<in> set (map id_m (messages s))"
  shows "snd (on_message ws (JsonObject p) s) = s
       \<and> fst (on_message ws (JsonObject p) s) = Some SqliteError"
proof -
  have "run_insert (id_p p) (senderId_p p) (receiverId_p p) (content_p p)
          (timestamp_p p) ''sent'' (messages s) = Inl SqliteError"
    unfolding assms(2) by (rule run_insert_duplicate [OF assms(3)])
  from on_message_insert_fails [OF assms(1) this] show ?thesis
    by simp
qed

theorem duplicate_send_no_push_witness:
  "userSockets online_m1 (Some ''b1'') = Some 2 \<and> readyState online_m1 2 = OPEN
   \<and> Some ''m1'' \<in> set (map id_m (messages online_m1))
   \<and> snd (on_message 1 (JsonObject (send ''m1'' ''a1'' ''b1'' ''hi'' 1000)) online_m1)
       = online_m1
   \<and> outbox online_m1 = [(2, send ''m1'' ''a1'' ''b1'' ''hi'' 1000)]"
proof -
  let ?p = "send ''m1'' ''a1'' ''b1'' ''hi'' 1000"
  have h: "type_p ?p = Some ''message''" "id_p ?p = Some ''m1''"
    "Some ''m1'' \<in> set (map id_m (messages online_m1))"
    by (simp_all add: send_def online_m1_fields)
  show ?thesis
    using h(3) duplicate_send_no_push [OF h, of 1]
    by (simp add: online_m1_fields)
qed

text \<open>
  C2 (as the code has it). For a message frame with all five properties, handled twice on a
  table whose ids are unique, the table afterwards holds exactly one row with the frame's
  id. The second call is not a success: its insert raises the primary-key error, which the
  handler catches and logs, and the call leaves the state as the first call left it.
\<close>

theorem second_send_raises_and_keeps_one_row:
  assumes "type_p p = Some ''message''"
    and "id_p p = Some i" and "senderId_p p = Some a" and "receiverId_p p = Some b"
    and "content_p p = Some c" and "timestamp_p p = Some t"
    and "distinct (filter (\<lambda>k. k \<noteq> None) (map id_m (messages s)))"
  shows "length (filter (\<lambda>m. id_m m = Some i)
           (messages (snd (on_message ws' (JsonObject p)
                             (snd (on_message ws (JsonObject p) s)))))) = 1
       \<and> on_message ws' (JsonObject p) (snd (on_message ws (JsonObject p) s))
           = (Some SqliteError, snd (on_message ws (JsonObject p) s))"
proof -
  let ?s1 = "snd (on_message ws (JsonObject p) s)"
  have present: "Some i \<in> set (map id_m (messages ?s1))"
  proof (cases "Some i \<in> set (map id_m (messages s))")
    case True
    from duplicate_send_unchanged [OF assms(1,2) True, of ws] True show ?thesis
      by simp
  next
    case False
    let ?row = "\<lparr>id_m = Some i, senderId = Some a, receiverId = Some b, content = Some c,
                 timestamp = Some t, status = ''sent''\<rparr>"
    have "run_insert (id_p p) (senderId_p p) (receiverId_p p) (content_p p) (timestamp_p p)
            ''sent'' (messages s) = Inr (messages s @ [?row])"
      using assms False by (simp add: run_insert_fresh)
    from on_message_insert_succeeds [OF assms(1) this, of ws]
    show ?thesis
      by (simp split: option.splits)
  qed
  have unique: "distinct (filter (\<lambda>k. k \<noteq> None) (map id_m (messages ?s1)))"
    using step_distinct_ids [OF assms(7), of "Message ws (JsonObject p)"] by simp
  have second: "on_message ws' (JsonObject p) ?s1 = (Some SqliteError, ?s1)"
    by (rule duplicate_send_unchanged [OF assms(1,2) present])
  have "length (filter (\<lambda>m. id_m m = Some i) (messages ?s1)) = 1"
    by (rule count_unique_key [OF unique present])
  with second show ?thesis by simp
qed

theorem second_send_raises_and_keeps_one_row_witness:
  "distinct (filter (\<lambda>k. k \<noteq> None) (map id_m (messages online)))
   \<and> length (filter (\<lambda>m. id_m m = Some ''m1'')
        (messages (snd (on_message 1 (JsonObject (send ''m1'' ''a1'' ''b1'' ''hi'' 1000))
           (snd (on_message 1 (JsonObject (send ''m1'' ''a1'' ''b1'' ''hi'' 1000))
                  online)))))) = 1
   \<and> fst (on_message 1 (JsonObject (send ''m1'' ''a1'' ''b1'' ''hi'' 1000))
           (snd (on_message 1 (JsonObject (send ''m1'' ''a1'' ''b1'' ''hi'' 1000)) online)))
       = Some SqliteError"
proof -
  let ?p = "send ''m1'' ''a1'' ''b1'' ''hi'' 1000"
  have h: "type_p ?p = Some ''message''" "id_p ?p = Some ''m1''" "senderId_p ?p = Some ''a1''"
    "receiverId_p ?p = Some ''b1''" "content_p ?p = Some ''hi''" "timestamp_p ?p = Some 1000"
    "distinct (filter (\<lambda>k. k \<noteq> None) (map id_m (messages online)))"
    by (simp_all add: send_def online_fields)
  note r = second_send_raises_and_keeps_one_row [OF h, of 1 1]
  have "fst (on_message 1 (JsonObject ?p) (snd (on_message 1 (JsonObject ?p) online)))
          = Some SqliteError"
    using conjunct2 [OF r] by (simp only: fst_conv)
  with h(7) conjunct1 [OF r] show ?thesis
    by blast
qed

text \<open>C2 as stated fails: the second call with the frame \<open>m1\<close> ends in the handler's
  \<open>catch\<close> with an exception, not in a success.\<close>

theorem idempotent_send_counterexample:
  "fst (on_message 1 (JsonObject (send ''m1'' ''a1'' ''b1'' ''hi'' 1000))
         (snd (on_message 1 (JsonObject (send ''m1'' ''a1'' ''b1'' ''hi'' 1000)) init)))
     \<noteq> None"
  by (simp add: on_message_def run_insert_def send_def init_def)




subsection \<open>Connection states\<close>

text \<open>
  C6 (as the code has it). On a connection that has not authenticated (\<open>currentUserId\<close> is
  \<open>null\<close>), a frame whose type is neither \<open>auth\<close> nor \<open>message\<close> has no effect. A frame
  of type \<open>message\<close> is not ignored: with all five properties and a fresh id it is stored
  with status \<open>sent\<close> and pushed to the receiver's open socket as on an authenticated
  connection; the registry and \<open>currentUserId\<close> stay as they were.
\<close>

theorem message_before_auth_is_stored:
  assumes "currentUserId s ws = None"
    and "ty \<noteq> Some ''auth''" and "ty \<noteq> Some ''message''"
    and "id_p p = Some i" and "senderId_p p = Some a" and "receiverId_p p = Some b"
    and "content_p p = Some c" and "timestamp_p p = Some t"
    and "Some i \<notin> set (map id_m (messages s))"
  shows "on_message ws (JsonObject (p\<lparr>type_p := ty\<rparr>)) s = (None, s)
       \<and> on_message ws (JsonObject (p\<lparr>type_p := Some ''message''\<rparr>)) s
           = (None, s\<lparr>messages := messages s @
                         [\<lparr>id_m = Some i, senderId = Some a, receiverId = Some b,
                           content = Some c, timestamp = Some t, status = ''sent''\<rparr>],
                       outbox := outbox s @
                         (case userSockets s (Some b) of
                            None \<Rightarrow> []
                          | Some h \<Rightarrow>
                              if readyState s h = OPEN
                              then [(h, push_frame (p\<lparr>type_p := Some ''message''\<rparr>))]
                              else [])\<rparr>)"
proof -
  let ?p = "p\<lparr>type_p := Some ''message''\<rparr>"
  let ?row = "\<lparr>id_m = Some i, senderId = Some a, receiverId = Some b, content = Some c,
               timestamp = Some t, status = ''sent''\<rparr>"
  have other: "on_message ws (JsonObject (p\<lparr>type_p := ty\<rparr>)) s = (None, s)"
    using assms(2,3) by (simp add: on_message_other_type)
  have ty: "type_p ?p = Some ''message''"
    by simp
  have ins: "run_insert (id_p ?p) (senderId_p ?p) (receiverId_p ?p) (content_p ?p)
               (timestamp_p ?p) ''sent'' (messages s) = Inr (messages s @ [?row])"
    using assms by (simp add: run_insert_fresh)
  have "on_message ws (JsonObject ?p) s
          = (None, s\<lparr>messages := messages s @ [?row],
                      outbox := outbox s @
                        (case userSockets s (Some b) of
                           None \<Rightarrow> []
                         | Some h \<Rightarrow> if readyState s h = OPEN then [(h, push_frame ?p)]
                                      else [])\<rparr>)"
    unfolding on_message_insert_succeeds [OF ty ins]
    using assms(6) by (simp split: option.splits)
  with other show ?thesis
    by (rule conjI)
qed

theorem message_before_auth_is_stored_witness:
  "currentUserId (step online (Connection 3)) 3 = None
   \<and> on_message 3 (JsonObject ((send ''m1'' ''a1'' ''b1'' ''hi'' 1000)\<lparr>type_p := Some ''typing''\<rparr>))
        (step online (Connection 3)) = (None, step online (Connection 3))
   \<and> messages (snd (on_message 3 (JsonObject (send ''m1'' ''a1'' ''b1'' ''hi'' 1000))
                      (step online (Connection 3))))
       = [\<lparr>id_m = Some ''m1'', senderId = Some ''a1'', receiverId = Some ''b1'',
           content = Some ''hi'', timestamp = Some 1000, status = ''sent''\<rparr>]
   \<and> outbox (snd (on_message 3 (JsonObject (send ''m1'' ''a1'' ''b1'' ''hi'' 1000))
                    (step online (Connection 3))))
       = [(2, send ''m1'' ''a1'' ''b1'' ''hi'' 1000)]"
proof -
  let ?p = "send ''m1'' ''a1'' ''b1'' ''hi'' 1000"
  let ?s = "step online (Connection 3)"
  have h: "currentUserId ?s 3 = None"
    "Some ''typing'' \<noteq> Some ''auth''" "Some ''typing'' \<noteq> Some ''message''"
    "id_p ?p = Some ''m1''" "senderId_p ?p = Some ''a1''" "receiverId_p ?p = Some ''b1''"
    "content_p ?p = Some ''hi''" "timestamp_p ?p = Some 1000"
    "Some ''m1'' \<notin> set (map id_m (messages ?s))"
    by (simp_all add: send_def on_connection_def online_fields)
  have same: "?p\<lparr>type_p := Some ''message''\<rparr> = ?p"
    by (simp add: send_def)
  have frame: "push_frame ?p = ?p"
    by (simp add: send_def push_frame_def)
  note r = message_before_auth_is_stored [OF h, unfolded same]
  have "messages (snd (on_message 3 (JsonObject ?p) ?s))
          = [\<lparr>id_m = Some ''m1'', senderId = Some ''a1'', receiverId = Some ''b1'',
              content = Some ''hi'', timestamp = Some 1000, status = ''sent''\<rparr>]"
    and "outbox (snd (on_message 3 (JsonObject ?p) ?s)) = [(2, ?p)]"
    unfolding conjunct2 [OF r] by (simp_all add: on_connection_def online_fields frame)
  with h(1) conjunct1 [OF r] show ?thesis
    by blast
qed

text \<open>C6 as stated fails: socket 1 has been accepted and has sent no auth frame, and its
  message frame changes the table.\<close>

theorem pre_auth_frame_counterexample:
  "currentUserId (step init (Connection 1)) 1 = None
   \<and> messages (snd (on_message 1 (JsonObject (send ''m1'' ''a1'' ''b1'' ''hi'' 1000))
                      (step init (Connection 1))))
       \<noteq> messages (step init (Connection 1))"
  by (simp add: on_message_def run_insert_def send_def init_def on_connection_def)

subsection \<open>Status\<close>

text \<open>
  C7. Whatever events the server handles, the rows already in the table stay as they are,
  in place and with their status, and every row that is added has status \<open>sent\<close>. So a
  table all of whose rows have status \<open>sent\<close>, the empty one in particular, stays so.
\<close>

theorem status_stays_sent:
  "(\<exists>new. messages (run s es) = messages s @ new \<and> (\<forall>m \<in> set new. status m = ''sent''))
   \<and> ((\<forall>m \<in> set (messages s). status m = ''sent'')
        \<longrightarrow> (\<forall>m \<in> set (messages (run s es)). status m = ''sent''))"
proof -
  from run_messages [of s es] obtain new
    where new: "messages (run s es) = messages s @ new" "\<forall>m \<in> set new. status m = ''sent''"
    by blast
  then have "(\<forall>m \<in> set (messages s). status m = ''sent'')
             \<longrightarrow> (\<forall>m \<in> set (messages (run s es)). status m = ''sent'')"
    by auto
  with new show ?thesis
    by blast
qed

theorem status_stays_sent_witness:
  "map status (messages online_m1) = [''sent'']
   \<and> messages (run online_m1
        [Message 2 (JsonObject (send ''m2'' ''b1'' ''a1'' ''ok'' 2000)), Close 2, Close 1,
         GetMessages ''a1'' ''b1''])
       = messages online_m1 @ [\<lparr>id_m = Some ''m2'', senderId = Some ''b1'',
                                 receiverId = Some ''a1'', content = Some ''ok'',
                                 timestamp = Some 2000, status = ''sent''\<rparr>]
   \<and> map status (messages (run online_m1
        [Message 2 (JsonObject (send ''m2'' ''b1'' ''a1'' ''ok'' 2000)), Close 2, Close 1,
         GetMessages ''a1'' ''b1''])) = [''sent'', ''sent'']"
proof -
  let ?es = "[Message 2 (JsonObject (send ''m2'' ''b1'' ''a1'' ''ok'' 2000)), Close 2, Close 1,
              GetMessages ''a1'' ''b1'']"
  have h: "\<forall>m \<in> set (messages online_m1). status m = ''sent''"
    by (simp add: online_m1_fields)
  have ms: "messages (run online_m1 ?es)
          = messages online_m1 @ [\<lparr>id_m = Some ''m2'', senderId = Some ''b1'',
                                    receiverId = Some ''a1'', content = Some ''ok'',
                                    timestamp = Some 2000, status = ''sent''\<rparr>]"
    by (simp add: run_def online_m1_def online_def init_def on_connection_def on_message_def
          on_close_def run_insert_def send_def auth_def)
  from conjunct2 [OF status_stays_sent [of online_m1 ?es]] h
  have all: "\<forall>m \<in> set (messages (run online_m1 ?es)). status m = ''sent''"
    by (rule mp)
  have "map status (messages (run online_m1 ?es)) = [''sent'', ''sent'']"
    unfolding ms by (simp add: online_m1_fields)
  moreover have "map status (messages online_m1) = [''sent'']"
    by (simp add: online_m1_fields)
  ultimately show ?thesis
    using ms all by blast
qed

end
